theory Spec2Isabelle
  imports Complex_Main "HOL-Library.Word"
begin

section \<open>Attendance session engine: data model\<close>

text \<open>
  Shallow embedding of the attendance controller (clock-in, go-away, resume, clock-out,
  today, history, administrative override) and of the Attendance schema.

  A JavaScript \<open>Date\<close> is its number of milliseconds since the epoch (an \<open>int\<close>); the
  difference of two dates is a difference of milliseconds, and \<open>Math.floor(d / 1000)\<close> is
  \<open>d div 1000\<close> (\<open>div\<close> on \<open>int\<close> rounds towards minus infinity, as \<open>Math.floor\<close> does).
  A field that may be \<open>undefined\<close> or \<open>null\<close> is an \<open>option\<close>; a \<open>Date\<close> object is always
  truthy, so \<open>if (record.lastActiveAt)\<close> is the test \<open>\<noteq> None\<close>.
\<close>

datatype att_status = ClockedIn | ClockedOut | Away | Absent

text \<open>A JavaScript string is the sequence of its UTF-16 code units; \<open>ascii\<close> gives the
  JavaScript string of an ASCII literal of the source.\<close>

type_synonym jsString = "16 word list"

definition ascii :: "string \<Rightarrow> jsString" where
  "ascii s = map of_char s"

text \<open>An entry of the \<open>sessions\<close> and \<open>breaks\<close> arrays: \<open>{start, end, duration}\<close>, the
  duration defaulting to 0.\<close>

record segment =
  seg_start :: int
  seg_end :: "int option"
  seg_duration :: int

text \<open>The Attendance document. The fields \<open>clockIn\<close> and \<open>clockOut\<close> of the schema are
  named \<open>clockInAt\<close> and \<open>clockOutAt\<close> here, the handlers keeping the names \<open>clockIn\<close>
  and \<open>clockOut\<close>.\<close>

record attendance =
  user :: nat
  date :: int
  clockInAt :: "int option"
  clockOutAt :: "int option"
  status :: att_status
  activeSeconds :: int
  lastActiveAt :: "int option"
  sessions :: "segment list"
  breaks :: "segment list"
  dailyReport :: jsString

text \<open>
  The collection is the list of its documents in natural order; a document is identified
  by its position. Every \<open>findOne\<close>/\<open>find\<close> of the source counts as one read and every
  \<open>save\<close> as one write, so that the store accesses of a handler are part of its result.
\<close>

record store =
  docs :: "attendance list"
  reads :: nat
  writes :: nat

text \<open>What the handlers take from the JavaScript runtime: the local midnight and the last
  millisecond of the local day of a timestamp (\<open>new Date(y, m, d)\<close> and
  \<open>new Date(y, m, d, 23, 59, 59, 999)\<close>), and \<open>toLocaleTimeString\<close>.\<close>

record runtime =
  dayStart :: "int \<Rightarrow> int"
  dayEnd :: "int \<Rightarrow> int"
  toLocaleTimeString :: "int \<Rightarrow> jsString"

text \<open>A handler answers with \<open>res.status(200).json(data)\<close>, with
  \<open>res.status(code).json({success: false, message})\<close>, or passes a thrown error to
  \<open>next\<close>. Of a successful answer only the data is modelled (for the override, which has
  no data, the message).\<close>

datatype 'a response = Success 'a | Rejected nat string | Errored

section \<open>Store access\<close>

fun findOne :: "('a \<Rightarrow> bool) \<Rightarrow> 'a list \<Rightarrow> (nat \<times> 'a) option" where
  "findOne P [] = None"
| "findOne P (x # xs) =
     (if P x then Some (0, x)
      else (case findOne P xs of None \<Rightarrow> None | Some (i, y) \<Rightarrow> Some (Suc i, y)))"

definition findOneDoc ::
  "(attendance \<Rightarrow> bool) \<Rightarrow> store \<Rightarrow> (nat \<times> attendance) option \<times> store" where
  "findOneDoc P db = (findOne P (docs db), db\<lparr>reads := Suc (reads db)\<rparr>)"

text \<open>\<open>record.save()\<close>: a document that was found is replaced at its position; a new
  document is appended unless the unique index on (user, date) rejects it.\<close>

definition save :: "nat option \<Rightarrow> attendance \<Rightarrow> store \<Rightarrow> store option" where
  "save pos r db =
     (case pos of
        Some i \<Rightarrow> Some (db\<lparr>docs := (docs db)[i := r], writes := Suc (writes db)\<rparr>)
      | None \<Rightarrow>
          if \<exists>x \<in> set (docs db). user x = user r \<and> date x = date r then None
          else Some (db\<lparr>docs := docs db @ [r], writes := Suc (writes db)\<rparr>))"

section \<open>Helpers of the controller\<close>

definition getTodayRange :: "runtime \<Rightarrow> int \<Rightarrow> int \<times> int" where
  "getTodayRange rt now = (dayStart rt now, dayEnd rt now)"

definition isActiveStatus :: "att_status \<Rightarrow> bool" where
  "isActiveStatus s = (s = ClockedIn \<or> s = Away)"

definition isActiveFor :: "nat \<Rightarrow> attendance \<Rightarrow> bool" where
  "isActiveFor userId r = (user r = userId \<and> isActiveStatus (status r))"

definition isDayOf :: "nat \<Rightarrow> int \<Rightarrow> attendance \<Rightarrow> bool" where
  "isDayOf userId d r = (user r = userId \<and> date r = d)"

text \<open>The document that \<open>getRecordForClockIn\<close> creates; the fields it does not give
  take the defaults of the schema.\<close>

definition newAttendance :: "nat \<Rightarrow> int \<Rightarrow> int \<Rightarrow> attendance" where
  "newAttendance userId start tNew =
     \<lparr>user = userId, date = start, clockInAt = Some tNew, clockOutAt = None,
      status = Absent, activeSeconds = 0, lastActiveAt = None, sessions = [],
      breaks = [], dailyReport = []\<rparr>"

text \<open>\<open>getRecordForClockIn\<close> reads the clock twice (\<open>getTodayRange\<close> and the \<open>clockIn\<close>
  of a new document): \<open>tRange\<close> and \<open>tNew\<close>. The result is the position of the document
  (\<open>None\<close> for a new one), the document, \<open>isNew\<close> and \<open>isActive\<close>.\<close>

definition getRecordForClockIn ::
  "runtime \<Rightarrow> store \<Rightarrow> nat \<Rightarrow> int \<Rightarrow> int \<Rightarrow>
     (nat option \<times> attendance \<times> bool \<times> bool) \<times> store" where
  "getRecordForClockIn rt db userId tRange tNew =
     (let start = fst (getTodayRange rt tRange);
          (activeRecord, db1) = findOneDoc (isActiveFor userId) db
      in case activeRecord of
           Some (i, r) \<Rightarrow> ((Some i, r, False, True), db1)
         | None \<Rightarrow>
             (let (record, db2) = findOneDoc (isDayOf userId start) db1
              in case record of
                   None \<Rightarrow>
                     ((None, newAttendance userId start tNew, True, False), db2)
                 | Some (i, r) \<Rightarrow> ((Some i, r, False, False), db2)))"

definition getActiveRecord ::
  "store \<Rightarrow> nat \<Rightarrow> (nat \<times> attendance) option \<times> store" where
  "getActiveRecord db userId = findOneDoc (isActiveFor userId) db"

text \<open>\<open>String.prototype.trim\<close> removes the leading and trailing white space and line
  terminators of ECMAScript: TAB, VT, FF, U+FEFF and the space separators of Unicode
  (U+0020, U+00A0, U+1680, U+2000 to U+200A, U+202F, U+205F, U+3000), and LF, CR, U+2028
  and U+2029. Each of them is one code unit, and no surrogate is among them.\<close>

definition isWhitespace :: "16 word \<Rightarrow> bool" where
  "isWhitespace c =
     (c = 0x0009 \<or> c = 0x000B \<or> c = 0x000C \<or> c = 0xFEFF
      \<or> c = 0x0020 \<or> c = 0x00A0 \<or> c = 0x1680 \<or> (0x2000 \<le> c \<and> c \<le> 0x200A)
      \<or> c = 0x202F \<or> c = 0x205F \<or> c = 0x3000
      \<or> c = 0x000A \<or> c = 0x000D \<or> c = 0x2028 \<or> c = 0x2029)"

definition trim :: "jsString \<Rightarrow> jsString" where
  "trim s = rev (dropWhile isWhitespace (rev (dropWhile isWhitespace s)))"

text \<open>The segment that go-away and clock-out push on \<open>sessions\<close>.\<close>

definition closeSegment :: "int \<Rightarrow> attendance \<Rightarrow> attendance" where
  "closeSegment now r =
     (case lastActiveAt r of
        None \<Rightarrow> r
      | Some t \<Rightarrow>
          (let segmentSeconds = (now - t) div 1000
           in r\<lparr>activeSeconds := activeSeconds r + segmentSeconds,
                sessions := sessions r @
                  [\<lparr>seg_start = t, seg_end = Some now, seg_duration = segmentSeconds\<rparr>]\<rparr>))"

text \<open>Closing the current break: the last entry of \<open>breaks\<close>, when there is one and it
  has no end.\<close>

definition closeCurrentBreak :: "int \<Rightarrow> segment list \<Rightarrow> segment list" where
  "closeCurrentBreak now bs =
     (if bs = [] then bs
      else (let currentBreak = last bs
            in if seg_end currentBreak = None
               then butlast bs @
                      [currentBreak\<lparr>seg_end := Some now,
                         seg_duration := (now - seg_start currentBreak) div 1000\<rparr>]
               else bs))"

definition totalBreakSecondsOf :: "attendance \<Rightarrow> int" where
  "totalBreakSecondsOf r = foldl (\<lambda>sum b. sum + seg_duration b) 0 (breaks r)"

section \<open>The state-changing handlers\<close>

text \<open>Each handler looks its record up, checks its precondition, changes the record and
  saves it. The change of the record is a function of its own (\<open>clockInUpdate\<close>,
  \<open>goAwayUpdate\<close>, \<open>resumeUpdate\<close>, \<open>clockOutUpdate\<close>): the statements of the handler
  between the precondition and \<open>record.save()\<close>, in their order.\<close>

record clockIn_data =
  ci_clockIn :: "int option"
  ci_status :: att_status
  ci_activeSeconds :: int

definition clockInUpdate :: "int \<Rightarrow> attendance \<Rightarrow> attendance" where
  "clockInUpdate now record = record\<lparr>status := ClockedIn, lastActiveAt := Some now\<rparr>"

definition clockIn ::
  "runtime \<Rightarrow> store \<Rightarrow> nat \<Rightarrow> int \<Rightarrow> int \<Rightarrow> int \<Rightarrow> clockIn_data response \<times> store" where
  "clockIn rt db userId tRange tNew now =
     (case getRecordForClockIn rt db userId tRange tNew of
        ((pos, record, isNew, isActive), db1) \<Rightarrow>
          if isActive
          then (Rejected 400 ''You are already clocked in. Please clock out first.'', db1)
          else (let record1 = clockInUpdate now record
                in case save pos record1 db1 of
                     None \<Rightarrow> (Errored, db1)
                   | Some db2 \<Rightarrow>
                       (Success \<lparr>ci_clockIn = clockInAt record1, ci_status = status record1,
                                 ci_activeSeconds = activeSeconds record1\<rparr>, db2)))"

record goAway_data =
  ga_status :: att_status
  ga_activeSeconds :: int
  ga_breakStart :: int

definition goAwayUpdate :: "int \<Rightarrow> attendance \<Rightarrow> attendance" where
  "goAwayUpdate now record =
     (let record1 = closeSegment now record
      in record1\<lparr>breaks := breaks record1 @
                    [\<lparr>seg_start = now, seg_end = None, seg_duration = 0\<rparr>],
           status := Away, lastActiveAt := None\<rparr>)"

definition goAway :: "store \<Rightarrow> nat \<Rightarrow> int \<Rightarrow> goAway_data response \<times> store" where
  "goAway db userId now =
     (case getActiveRecord db userId of
        (None, db1) \<Rightarrow> (Rejected 400 ''You must be clocked in to go away'', db1)
      | (Some (i, record), db1) \<Rightarrow>
          if status record \<noteq> ClockedIn
          then (Rejected 400 ''You must be clocked in to go away'', db1)
          else (let record1 = goAwayUpdate now record
                in case save (Some i) record1 db1 of
                     None \<Rightarrow> (Errored, db1)
                   | Some db2 \<Rightarrow>
                       (Success \<lparr>ga_status = status record1,
                                 ga_activeSeconds = activeSeconds record1,
                                 ga_breakStart = now\<rparr>, db2)))"

record resume_data =
  rs_status :: att_status
  rs_activeSeconds :: int
  rs_lastActiveAt :: "int option"

definition resumeUpdate :: "int \<Rightarrow> attendance \<Rightarrow> attendance" where
  "resumeUpdate now record =
     record\<lparr>breaks := closeCurrentBreak now (breaks record),
       status := ClockedIn, lastActiveAt := Some now\<rparr>"

definition resume :: "store \<Rightarrow> nat \<Rightarrow> int \<Rightarrow> resume_data response \<times> store" where
  "resume db userId now =
     (case getActiveRecord db userId of
        (None, db1) \<Rightarrow> (Rejected 400 ''You are not on a break'', db1)
      | (Some (i, record), db1) \<Rightarrow>
          if status record \<noteq> Away
          then (Rejected 400 ''You are not on a break'', db1)
          else (let record1 = resumeUpdate now record
                in case save (Some i) record1 db1 of
                     None \<Rightarrow> (Errored, db1)
                   | Some db2 \<Rightarrow>
                       (Success \<lparr>rs_status = status record1,
                                 rs_activeSeconds = activeSeconds record1,
                                 rs_lastActiveAt = lastActiveAt record1\<rparr>, db2)))"

record clockOut_data =
  co_clockIn :: "int option"
  co_clockOut :: "int option"
  co_activeSeconds :: int
  co_totalBreakSeconds :: int
  co_dailyReport :: jsString

text \<open>The request body's \<open>dailyReport\<close> is a string or missing (\<open>undefined\<close> or
  \<open>null\<close>);
  \<open>!dailyReport || !dailyReport.trim()\<close> is \<open>reportMissing\<close>. Past that test the report is
  a string, so the \<open>None\<close> branch that follows it in \<open>clockOut\<close> is never taken.\<close>

definition reportMissing :: "jsString option \<Rightarrow> bool" where
  "reportMissing dailyReportIn =
     (case dailyReportIn of None \<Rightarrow> True | Some s \<Rightarrow> s = [] \<or> trim s = [])"

definition clockOutUpdate :: "runtime \<Rightarrow> jsString \<Rightarrow> int \<Rightarrow> attendance \<Rightarrow> attendance" where
  "clockOutUpdate rt reportText now record =
     (let record1 = (if status record = ClockedIn then closeSegment now record else record);
          record2 = (if status record1 = Away
                     then record1\<lparr>breaks := closeCurrentBreak now (breaks record1)\<rparr>
                     else record1);
          record3 = record2\<lparr>clockOutAt := Some now, status := ClockedOut,
                      lastActiveAt := None\<rparr>
      in if dailyReport record3 \<noteq> []
         then record3\<lparr>dailyReport := dailyReport record3 @ [0x000A] @ ascii ''['' @
                toLocaleTimeString rt now @ ascii '']: '' @ trim reportText\<rparr>
         else record3\<lparr>dailyReport := trim reportText\<rparr>)"

definition clockOut ::
  "runtime \<Rightarrow> store \<Rightarrow> nat \<Rightarrow> jsString option \<Rightarrow> int \<Rightarrow> clockOut_data response \<times> store" where
  "clockOut rt db userId dailyReportIn now =
     (case getActiveRecord db userId of
        (None, db1) \<Rightarrow> (Rejected 400 ''You are not clocked in. Please clock in first.'', db1)
      | (Some (i, record), db1) \<Rightarrow>
          if reportMissing dailyReportIn
          then (Rejected 400 ''Daily report is required when clocking out'', db1)
          else (case dailyReportIn of
                  None \<Rightarrow> (Rejected 400 ''Daily report is required when clocking out'', db1)
                | Some reportText \<Rightarrow>
                    (let record1 = clockOutUpdate rt reportText now record
                     in case save (Some i) record1 db1 of
                          None \<Rightarrow> (Errored, db1)
                        | Some db2 \<Rightarrow>
                            (Success \<lparr>co_clockIn = clockInAt record1,
                                      co_clockOut = clockOutAt record1,
                                      co_activeSeconds = activeSeconds record1,
                                      co_totalBreakSeconds = totalBreakSecondsOf record1,
                                      co_dailyReport = dailyReport record1\<rparr>, db2))))"

section \<open>The read handlers\<close>

record today_data =
  td_status :: att_status
  td_clockIn :: "int option"
  td_clockOut :: "int option"
  td_activeSeconds :: int
  td_totalBreakSeconds :: "int option"
  td_breaksCount :: "nat option"
  td_lastActiveAt :: "int option"
  td_dailyReport :: jsString

text \<open>The lookup at the head of \<open>getToday\<close>: the active record, whatever its date, and
  only when there is none the record of today.\<close>

definition getTodayRecord ::
  "runtime \<Rightarrow> store \<Rightarrow> nat \<Rightarrow> int \<Rightarrow> (nat \<times> attendance) option \<times> store" where
  "getTodayRecord rt db userId tRange =
     (case getActiveRecord db userId of
        (Some found, db1) \<Rightarrow> (Some found, db1)
      | (None, db1) \<Rightarrow> findOneDoc (isDayOf userId (fst (getTodayRange rt tRange))) db1)"

text \<open>The answer without a record has no \<open>totalBreakSeconds\<close> and no \<open>breaksCount\<close>.\<close>

definition getToday ::
  "runtime \<Rightarrow> store \<Rightarrow> nat \<Rightarrow> int \<Rightarrow> int \<Rightarrow> today_data response \<times> store" where
  "getToday rt db userId tRange now =
     (case getTodayRecord rt db userId tRange of
        (None, db1) \<Rightarrow>
          (Success \<lparr>td_status = Absent, td_clockIn = None, td_clockOut = None,
                    td_activeSeconds = 0, td_totalBreakSeconds = None,
                    td_breaksCount = None, td_lastActiveAt = None,
                    td_dailyReport = []\<rparr>, db1)
      | (Some (i, record), db1) \<Rightarrow>
          (let liveActiveSeconds =
                 (if status record = ClockedIn
                  then (case lastActiveAt record of
                          Some t \<Rightarrow> activeSeconds record + (now - t) div 1000
                        | None \<Rightarrow> activeSeconds record)
                  else activeSeconds record)
           in (Success \<lparr>td_status = status record, td_clockIn = clockInAt record,
                         td_clockOut = clockOutAt record,
                         td_activeSeconds = liveActiveSeconds,
                         td_totalBreakSeconds = Some (totalBreakSecondsOf record),
                         td_breaksCount = Some (length (breaks record)),
                         td_lastActiveAt = lastActiveAt record,
                         td_dailyReport = dailyReport record\<rparr>, db1)))"

text \<open>The rows of the history: \<open>select("date status clockIn clockOut activeSeconds
  dailyReport")\<close>, sorted by date.\<close>

record history_row =
  hr_date :: int
  hr_status :: att_status
  hr_clockIn :: "int option"
  hr_clockOut :: "int option"
  hr_activeSeconds :: int
  hr_dailyReport :: jsString

definition selectRow :: "attendance \<Rightarrow> history_row" where
  "selectRow r =
     \<lparr>hr_date = date r, hr_status = status r, hr_clockIn = clockInAt r,
      hr_clockOut = clockOutAt r, hr_activeSeconds = activeSeconds r,
      hr_dailyReport = dailyReport r\<rparr>"

definition findRange :: "nat \<Rightarrow> int \<Rightarrow> int \<Rightarrow> store \<Rightarrow> history_row list \<times> store" where
  "findRange userId rangeStart rangeEnd db =
     (map selectRow
        (sort_key date
           (filter (\<lambda>r. user r = userId \<and> rangeStart \<le> date r \<and> date r \<le> rangeEnd)
              (docs db))),
      db\<lparr>reads := Suc (reads db)\<rparr>)"

text \<open>\<open>Math.round\<close> rounds to the nearest integer, a half upwards. JavaScript numbers are
  taken as exact real numbers here: the quotient by 3600 and the product by 10 are not rounded
  to a double.\<close>

definition mathRound :: "real \<Rightarrow> int" where
  "mathRound x = \<lfloor>x + 1 / 2\<rfloor>"

definition daysPresentOf :: "history_row list \<Rightarrow> nat" where
  "daysPresentOf records =
     length (filter (\<lambda>r. hr_status r \<in> set [ClockedIn, ClockedOut, Away]) records)"

definition totalActiveSecondsOf :: "history_row list \<Rightarrow> int" where
  "totalActiveSecondsOf records = foldl (\<lambda>sum r. sum + hr_activeSeconds r) 0 records"

definition totalWorkingHoursOf :: "history_row list \<Rightarrow> real" where
  "totalWorkingHoursOf records =
     of_int (mathRound (of_int (totalActiveSecondsOf records) / 3600 * 10)) / 10"

record history_data =
  hd_month :: int
  hd_year :: int
  hd_records :: "history_row list"
  hd_daysPresent :: nat
  hd_totalWorkingHours :: real

text \<open>\<open>getHistory\<close>, from the month and year it has resolved and the first and last instant
  of that month (\<open>new Date(year, month - 1, 1)\<close> and
  \<open>new Date(year, month, 0, 23, 59, 59, 999)\<close>).\<close>

definition getHistory ::
  "store \<Rightarrow> nat \<Rightarrow> int \<Rightarrow> int \<Rightarrow> int \<Rightarrow> int \<Rightarrow> history_data response \<times> store" where
  "getHistory db userId month year rangeStart rangeEnd =
     (case findRange userId rangeStart rangeEnd db of
        (records, db1) \<Rightarrow>
          (Success \<lparr>hd_month = month, hd_year = year, hd_records = records,
                    hd_daysPresent = daysPresentOf records,
                    hd_totalWorkingHours = totalWorkingHoursOf records\<rparr>, db1))"

section \<open>The administrative override\<close>

text \<open>\<open>adminOverride\<close>, from \<open>start\<close>, the local midnight that
  \<open>new Date(Number(yyyy), Number(mm) - 1, Number(dd))\<close> gives for the date of the request,
  and the status of the request. The status is only compared with the literals
  \<open>'present'\<close> and \<open>'absent'\<close> and quoted in the message, and is kept as a string of
  characters.\<close>

definition overrideNew :: "nat \<Rightarrow> int \<Rightarrow> string \<Rightarrow> attendance" where
  "overrideNew userId start statusIn =
     (let activeSecs = (if statusIn = ''present'' then 28800 else 0)
      in \<lparr>user = userId, date = start,
          clockInAt = (if statusIn = ''present'' then Some start else None),
          clockOutAt = (if statusIn = ''present'' then Some (start + activeSecs * 1000)
                        else None),
          status = (if statusIn = ''present'' then ClockedOut else Absent),
          activeSeconds = activeSecs, lastActiveAt = None, sessions = [], breaks = [],
          dailyReport = ascii ''Admin overridden.''\<rparr>)"

definition overrideExisting :: "int \<Rightarrow> string \<Rightarrow> attendance \<Rightarrow> attendance" where
  "overrideExisting start statusIn record =
     (let activeSecs = (if statusIn = ''present'' then 28800 else 0);
          record1 = record\<lparr>status := (if statusIn = ''present'' then ClockedOut else Absent),
                      activeSeconds := activeSecs\<rparr>
      in if statusIn = ''absent''
         then record1\<lparr>lastActiveAt := None, clockInAt := None, clockOutAt := None,
                dailyReport := ascii ''Admin marked absent.''\<rparr>
         else record1\<lparr>clockInAt := (if clockInAt record1 = None then Some start
                                      else clockInAt record1),
                clockOutAt := Some (start + activeSecs * 1000),
                dailyReport := ascii ''Admin overridden.''\<rparr>)"

definition adminOverride ::
  "store \<Rightarrow> nat \<Rightarrow> int \<Rightarrow> string \<Rightarrow> string response \<times> store" where
  "adminOverride db userId start statusIn =
     (case findOneDoc (isDayOf userId start) db of
        (found, db1) \<Rightarrow>
          (let (pos, record) =
                 (case found of
                    None \<Rightarrow> (None, overrideNew userId start statusIn)
                  | Some (i, r) \<Rightarrow> (Some i, overrideExisting start statusIn r))
           in case save pos record db1 of
                None \<Rightarrow> (Errored, db1)
              | Some db2 \<Rightarrow> (Success (''Attendance marked as '' @ statusIn @ ''.''), db2)))"

section \<open>Sequences of requests\<close>

datatype request =
    ReqClockIn nat int int int
  | ReqGoAway nat int
  | ReqResume nat int
  | ReqClockOut nat "jsString option" int

fun isSuccess :: "'a response \<Rightarrow> bool" where
  "isSuccess (Success _) = True"
| "isSuccess (Rejected _ _) = False"
| "isSuccess Errored = False"

fun perform :: "runtime \<Rightarrow> store \<Rightarrow> request \<Rightarrow> bool \<times> store" where
  "perform rt db (ReqClockIn userId tRange tNew now) =
     (case clockIn rt db userId tRange tNew now of (res, db1) \<Rightarrow> (isSuccess res, db1))"
| "perform rt db (ReqGoAway userId now) =
     (case goAway db userId now of (res, db1) \<Rightarrow> (isSuccess res, db1))"
| "perform rt db (ReqResume userId now) =
     (case resume db userId now of (res, db1) \<Rightarrow> (isSuccess res, db1))"
| "perform rt db (ReqClockOut userId dailyReportIn now) =
     (case clockOut rt db userId dailyReportIn now of (res, db1) \<Rightarrow> (isSuccess res, db1))"

text \<open>A sequence of requests respects the preconditions when every request of it is
  answered with success; \<open>run\<close> is then the store it leaves.\<close>

fun run :: "runtime \<Rightarrow> store \<Rightarrow> request list \<Rightarrow> store option" where
  "run rt db [] = Some db"
| "run rt db (q # qs) =
     (case perform rt db q of (True, db1) \<Rightarrow> run rt db1 qs | (False, db1) \<Rightarrow> None)"

section \<open>A concrete runtime: UTC\<close>

definition twoDigits :: "int \<Rightarrow> string" where
  "twoDigits n = [''0123456789'' ! nat (n div 10 mod 10), ''0123456789'' ! nat (n mod 10)]"

definition utcTimeString :: "int \<Rightarrow> string" where
  "utcTimeString t =
     (let s = t mod 86400000 div 1000
      in twoDigits (s div 3600) @ '':'' @ twoDigits (s mod 3600 div 60) @ '':'' @
         twoDigits (s mod 60))"

definition utcRuntime :: runtime where
  "utcRuntime =
     \<lparr>dayStart = (\<lambda>t. t - t mod 86400000),
      dayEnd = (\<lambda>t. t - t mod 86400000 + 86399999),
      toLocaleTimeString = (\<lambda>t. ascii (utcTimeString t))\<rparr>"

definition emptyStore :: store where
  "emptyStore = \<lparr>docs = [], reads = 0, writes = 0\<rparr>"

section \<open>Example requests\<close>

text \<open>A short day of user 7: clock-in one second after midnight, clock-out at 6.5
  seconds.\<close>

definition shortDay :: "request list" where
  "shortDay = [ReqClockIn 7 1000 1000 1000, ReqClockOut 7 (Some (ascii ''ok'')) 6500]"

definition shortDayRecord :: attendance where
  "shortDayRecord =
     \<lparr>user = 7, date = 0, clockInAt = Some 1000, clockOutAt = Some 6500,
      status = ClockedOut, activeSeconds = 5, lastActiveAt = None,
      sessions = [\<lparr>seg_start = 1000, seg_end = Some 6500, seg_duration = 5\<rparr>],
      breaks = [], dailyReport = ascii ''ok''\<rparr>"

text \<open>Times of day 0 in UTC, and the working day of user 1: clock-in at 09:00, away at
  11:00, back at 11:30, clock-out at 18:00 with the report "done".\<close>

definition hhmm :: "int \<Rightarrow> int \<Rightarrow> int" where
  "hhmm h m = (h * 60 + m) * 60000"

definition workday :: "request list" where
  "workday =
     [ReqClockIn 1 (hhmm 9 0) (hhmm 9 0) (hhmm 9 0), ReqGoAway 1 (hhmm 11 0),
      ReqResume 1 (hhmm 11 30), ReqClockOut 1 (Some (ascii ''done'')) (hhmm 18 0)]"

text \<open>User 1 in the morning of day 0, clocked in again since 10:00 after a break, and
  the same user with the day closed at 17:00.\<close>

definition morningRecord :: attendance where
  "morningRecord =
     \<lparr>user = 1, date = 0, clockInAt = Some (hhmm 9 0), clockOutAt = None,
      status = ClockedIn, activeSeconds = 1200, lastActiveAt = Some (hhmm 10 0),
      sessions = [\<lparr>seg_start = hhmm 9 0, seg_end = Some (hhmm 9 20), seg_duration = 1200\<rparr>],
      breaks = [\<lparr>seg_start = hhmm 9 20, seg_end = Some (hhmm 10 0), seg_duration = 2400\<rparr>],
      dailyReport = []\<rparr>"

definition morningStore :: store where
  "morningStore = \<lparr>docs = [morningRecord], reads = 0, writes = 0\<rparr>"

definition closedRecord :: attendance where
  "closedRecord =
     \<lparr>user = 1, date = 0, clockInAt = Some (hhmm 9 0), clockOutAt = Some (hhmm 17 0),
      status = ClockedOut, activeSeconds = 28800, lastActiveAt = None,
      sessions = [\<lparr>seg_start = hhmm 9 0, seg_end = Some (hhmm 17 0), seg_duration = 28800\<rparr>],
      breaks = [], dailyReport = ascii ''done''\<rparr>"

definition closedStore :: store where
  "closedStore = \<lparr>docs = [closedRecord], reads = 0, writes = 0\<rparr>"

text \<open>A month of user 1 with three records: 8 hours on day 0, an absent day 1, one hour on
  day 2.\<close>

definition dayMs :: int where "dayMs = 86400000"

definition historyStore :: store where
  "historyStore =
     \<lparr>docs =
        [\<lparr>user = 1, date = 2 * dayMs, clockInAt = Some (2 * dayMs + hhmm 9 0),
          clockOutAt = Some (2 * dayMs + hhmm 10 0), status = ClockedOut,
          activeSeconds = 3600, lastActiveAt = None,
          sessions = [\<lparr>seg_start = 2 * dayMs + hhmm 9 0,
                       seg_end = Some (2 * dayMs + hhmm 10 0), seg_duration = 3600\<rparr>],
          breaks = [], dailyReport = ascii ''review''\<rparr>,
         closedRecord,
         \<lparr>user = 1, date = dayMs, clockInAt = None, clockOutAt = None, status = Absent,
          activeSeconds = 0, lastActiveAt = None, sessions = [], breaks = [],
          dailyReport = ascii ''Admin marked absent.''\<rparr>],
      reads = 0, writes = 0\<rparr>"

section \<open>The lookup as the specification words it\<close>

text \<open>"Active record for user" is resolved by searching for any record with status
  clocked-in or away regardless of date, before falling back to a date-scoped lookup.\<close>

definition specActiveLookup ::
  "attendance list \<Rightarrow> nat \<Rightarrow> int \<Rightarrow> (nat \<times> attendance) option" where
  "specActiveLookup ds userId today =
     (case findOne (isActiveFor userId) ds of
        Some found \<Rightarrow> Some found
      | None \<Rightarrow> findOne (isDayOf userId today) ds)"

text \<open>The key of the unique index of the collection: the user and the day.\<close>

definition dayKey :: "attendance \<Rightarrow> nat \<times> int" where
  "dayKey r = (user r, date r)"

section \<open>Accounting of a record\<close>

text \<open>A record is accounted when its \<open>activeSeconds\<close> is the sum of the durations of its
  sessions and every session is closed with the duration \<open>end - start\<close> in whole
  seconds.\<close>

definition accounted :: "attendance \<Rightarrow> bool" where
  "accounted r =
     (activeSeconds r = sum_list (map seg_duration (sessions r)) \<and>
      (\<forall>s \<in> set (sessions r).
         case seg_end s of
           None \<Rightarrow> False
         | Some e \<Rightarrow> seg_duration s = (e - seg_start s) div 1000))"

section \<open>Facts about the store\<close>

lemma findOne_None_iff: "findOne P xs = None \<longleftrightarrow> (\<forall>x \<in> set xs. \<not> P x)"
  by (induction xs) (auto split: option.splits)

lemma findOne_SomeD:
  "findOne P xs = Some (i, x) \<Longrightarrow> i < length xs \<and> xs ! i = x \<and> P x"
proof (induction xs arbitrary: i)
  case Nil
  then show ?case by simp
next
  case (Cons a xs)
  show ?case
  proof (cases "P a")
    case True
    with Cons.prems show ?thesis by simp
  next
    case False
    with Cons.prems obtain j where j: "findOne P xs = Some (j, x)" and i: "i = Suc j"
      by (auto split: option.splits)
    from Cons.IH [OF j] i show ?thesis by simp
  qed
qed

lemma findOne_Some_mem: "findOne P xs = Some (i, x) \<Longrightarrow> x \<in> set xs"
  using findOne_SomeD [of P xs i x] nth_mem by blast

lemma findOne_append_new:
  "findOne P xs = None \<Longrightarrow> findOne P (xs @ [y]) = (if P y then Some (length xs, y) else None)"
  by (induction xs) (auto split: option.splits if_splits)

lemma findOne_found:
  assumes "r \<in> set xs" and "P r"
  obtains i x where "findOne P xs = Some (i, x)"
proof (cases "findOne P xs")
  case None
  with assms show ?thesis by (simp add: findOne_None_iff)
next
  case (Some a)
  then show ?thesis using that by (cases a) simp
qed

lemma getRecordForClockIn_active:
  assumes "findOne (isActiveFor userId) (docs db) = Some (i, x)"
  shows "getRecordForClockIn rt db userId tRange tNew =
           ((Some i, x, False, True), db\<lparr>reads := Suc (reads db)\<rparr>)"
  using assms by (simp add: getRecordForClockIn_def findOneDoc_def)

lemma clockIn_active:
  assumes "findOne (isActiveFor userId) (docs db) = Some (i, x)"
  shows "clockIn rt db userId tRange tNew now =
           (Rejected 400 ''You are already clocked in. Please clock out first.'',
            db\<lparr>reads := Suc (reads db)\<rparr>)"
  by (simp add: clockIn_def getRecordForClockIn_active [OF assms])

lemma getRecordForClockIn_today:
  assumes "findOne (isActiveFor userId) (docs db) = None"
      and "findOne (isDayOf userId (dayStart rt tRange)) (docs db) = Some (i, x)"
  shows "getRecordForClockIn rt db userId tRange tNew =
           ((Some i, x, False, False), db\<lparr>reads := Suc (Suc (reads db))\<rparr>)"
  using assms by (simp add: getRecordForClockIn_def findOneDoc_def getTodayRange_def)

lemma getRecordForClockIn_new:
  assumes "findOne (isActiveFor userId) (docs db) = None"
      and "findOne (isDayOf userId (dayStart rt tRange)) (docs db) = None"
  shows "getRecordForClockIn rt db userId tRange tNew =
           ((None, newAttendance userId (dayStart rt tRange) tNew, True, False),
            db\<lparr>reads := Suc (Suc (reads db))\<rparr>)"
  using assms
  by (simp add: getRecordForClockIn_def findOneDoc_def getTodayRange_def newAttendance_def)

lemma clockIn_today:
  assumes "findOne (isActiveFor userId) (docs db) = None"
      and "findOne (isDayOf userId (dayStart rt tRange)) (docs db) = Some (i, x)"
  shows "isSuccess (fst (clockIn rt db userId tRange tNew now))"
    and "docs (snd (clockIn rt db userId tRange tNew now)) =
           (docs db)[i := clockInUpdate now x]"
  by (simp_all add: clockIn_def getRecordForClockIn_today [OF assms] save_def Let_def)

lemma clockIn_new:
  assumes "findOne (isActiveFor userId) (docs db) = None"
      and "findOne (isDayOf userId (dayStart rt tRange)) (docs db) = None"
  shows "isSuccess (fst (clockIn rt db userId tRange tNew now))"
    and "docs (snd (clockIn rt db userId tRange tNew now)) =
           docs db @ [clockInUpdate now (newAttendance userId (dayStart rt tRange) tNew)]"
proof -
  have nodup: "\<not> (\<exists>x \<in> set (docs db). user x = userId \<and> date x = dayStart rt tRange)"
    using assms(2) by (simp add: findOne_None_iff isDayOf_def)
  have u: "user (clockInUpdate now (newAttendance userId (dayStart rt tRange) tNew)) = userId"
    and d: "date (clockInUpdate now (newAttendance userId (dayStart rt tRange) tNew)) =
              dayStart rt tRange"
    by (simp_all add: clockInUpdate_def newAttendance_def)
  show "isSuccess (fst (clockIn rt db userId tRange tNew now))"
    using nodup by (simp add: clockIn_def getRecordForClockIn_new [OF assms] save_def u d Let_def)
  show "docs (snd (clockIn rt db userId tRange tNew now)) =
           docs db @ [clockInUpdate now (newAttendance userId (dayStart rt tRange) tNew)]"
    using nodup by (simp add: clockIn_def getRecordForClockIn_new [OF assms] save_def u d Let_def)
qed


lemma goAway_docs:
  "docs (snd (goAway db userId now)) =
     (case findOne (isActiveFor userId) (docs db) of
        None \<Rightarrow> docs db
      | Some (i, x) \<Rightarrow>
          if status x = ClockedIn then (docs db)[i := goAwayUpdate now x] else docs db)"
  by (simp add: goAway_def getActiveRecord_def findOneDoc_def save_def Let_def
      split: option.splits)

lemma resume_docs:
  "docs (snd (resume db userId now)) =
     (case findOne (isActiveFor userId) (docs db) of
        None \<Rightarrow> docs db
      | Some (i, x) \<Rightarrow>
          if status x = Away then (docs db)[i := resumeUpdate now x] else docs db)"
  by (simp add: resume_def getActiveRecord_def findOneDoc_def save_def Let_def
      split: option.splits)

lemma clockOut_docs:
  "docs (snd (clockOut rt db userId dailyReportIn now)) =
     (case findOne (isActiveFor userId) (docs db) of
        None \<Rightarrow> docs db
      | Some (i, x) \<Rightarrow>
          (case dailyReportIn of
             None \<Rightarrow> docs db
           | Some reportText \<Rightarrow>
               if reportMissing dailyReportIn then docs db
               else (docs db)[i := clockOutUpdate rt reportText now x]))"
  by (simp add: clockOut_def getActiveRecord_def findOneDoc_def save_def Let_def
      split: option.splits)

lemma clockIn_docs_cases:
  "docs (snd (clockIn rt db userId tRange tNew now)) = docs db
   \<or> (\<exists>i x. x \<in> set (docs db) \<and>
         docs (snd (clockIn rt db userId tRange tNew now)) =
           (docs db)[i := clockInUpdate now x])
   \<or> docs (snd (clockIn rt db userId tRange tNew now)) =
        docs db @ [clockInUpdate now (newAttendance userId (dayStart rt tRange) tNew)]"
proof (cases "findOne (isActiveFor userId) (docs db)")
  case (Some a)
  then show ?thesis by (cases a) (simp add: clockIn_active)
next
  case None
  show ?thesis
  proof (cases "findOne (isDayOf userId (dayStart rt tRange)) (docs db)")
    case (Some a)
    obtain i x where a: "a = (i, x)" by (cases a)
    have "x \<in> set (docs db)" using Some a findOne_Some_mem by fastforce
    then show ?thesis using clockIn_today(2) [OF None Some [unfolded a]] by blast
  next
    case N2: None
    show ?thesis using clockIn_new(2) [OF None N2] by simp
  qed
qed

lemmas handler_defs =
  clockIn_def goAway_def resume_def clockOut_def getToday_def getTodayRecord_def
  adminOverride_def getRecordForClockIn_def getActiveRecord_def findOneDoc_def save_def
  getTodayRange_def isActiveFor_def isDayOf_def isActiveStatus_def newAttendance_def
  clockInUpdate_def goAwayUpdate_def resumeUpdate_def clockOutUpdate_def closeSegment_def
  closeCurrentBreak_def totalBreakSecondsOf_def reportMissing_def trim_def
  isWhitespace_def ascii_def overrideNew_def overrideExisting_def

lemmas example_defs =
  hhmm_def workday_def morningRecord_def morningStore_def closedRecord_def closedStore_def
  utcRuntime_def emptyStore_def dayMs_def historyStore_def

section \<open>Active seconds and sessions\<close>

lemma accounted_new: "accounted (newAttendance userId start tNew)"
  by (simp add: accounted_def newAttendance_def)

lemma accounted_closeSegment: "accounted r \<Longrightarrow> accounted (closeSegment now r)"
  by (auto simp: accounted_def closeSegment_def Let_def split: option.splits)

lemma accounted_clockInUpdate: "accounted r \<Longrightarrow> accounted (clockInUpdate now r)"
  by (simp add: accounted_def clockInUpdate_def)

lemma accounted_goAwayUpdate: "accounted r \<Longrightarrow> accounted (goAwayUpdate now r)"
  using accounted_closeSegment [of r now]
  by (simp add: accounted_def goAwayUpdate_def Let_def)

lemma accounted_resumeUpdate: "accounted r \<Longrightarrow> accounted (resumeUpdate now r)"
  by (simp add: accounted_def resumeUpdate_def)

lemma accounted_clockOutUpdate: "accounted r \<Longrightarrow> accounted (clockOutUpdate rt reportText now r)"
  using accounted_closeSegment [of r now]
  by (simp add: accounted_def clockOutUpdate_def Let_def)

lemma all_update:
  "\<forall>x \<in> set xs. Q x \<Longrightarrow> Q y \<Longrightarrow> \<forall>x \<in> set (xs[i := y]). Q x"
  using set_update_subset_insert [of xs i y] by auto

lemma clockIn_accounted:
  assumes "\<forall>x \<in> set (docs db). accounted x"
  shows "\<forall>x \<in> set (docs (snd (clockIn rt db userId tRange tNew now))). accounted x"
proof -
  let ?ds = "docs (snd (clockIn rt db userId tRange tNew now))"
  from clockIn_docs_cases [of rt db userId tRange tNew now]
  consider "?ds = docs db"
    | i x where "x \<in> set (docs db)" "?ds = (docs db)[i := clockInUpdate now x]"
    | "?ds = docs db @ [clockInUpdate now (newAttendance userId (dayStart rt tRange) tNew)]"
    by blast
  then show ?thesis
  proof cases
    case 1
    with assms show ?thesis by simp
  next
    case 2
    from assms 2(1) have "accounted (clockInUpdate now x)"
      using accounted_clockInUpdate by blast
    with assms have "\<forall>y \<in> set ((docs db)[i := clockInUpdate now x]). accounted y"
      by (rule all_update)
    with 2(2) show ?thesis by simp
  next
    case 3
    then show ?thesis using assms accounted_clockInUpdate [OF accounted_new] by simp
  qed
qed

lemma goAway_accounted:
  assumes "\<forall>x \<in> set (docs db). accounted x"
  shows "\<forall>x \<in> set (docs (snd (goAway db userId now))). accounted x"
proof (cases "findOne (isActiveFor userId) (docs db)")
  case None
  with assms show ?thesis by (simp add: goAway_docs)
next
  case (Some a)
  obtain i x where a: "a = (i, x)" by (cases a)
  have "accounted x" using Some a assms findOne_Some_mem by fastforce
  then have "accounted (goAwayUpdate now x)" by (rule accounted_goAwayUpdate)
  with assms have "\<forall>y \<in> set ((docs db)[i := goAwayUpdate now x]). accounted y"
    by (rule all_update)
  with assms Some a show ?thesis by (simp add: goAway_docs)
qed

lemma resume_accounted:
  assumes "\<forall>x \<in> set (docs db). accounted x"
  shows "\<forall>x \<in> set (docs (snd (resume db userId now))). accounted x"
proof (cases "findOne (isActiveFor userId) (docs db)")
  case None
  with assms show ?thesis by (simp add: resume_docs)
next
  case (Some a)
  obtain i x where a: "a = (i, x)" by (cases a)
  have "accounted x" using Some a assms findOne_Some_mem by fastforce
  then have "accounted (resumeUpdate now x)" by (rule accounted_resumeUpdate)
  with assms have "\<forall>y \<in> set ((docs db)[i := resumeUpdate now x]). accounted y"
    by (rule all_update)
  with assms Some a show ?thesis by (simp add: resume_docs)
qed

lemma clockOut_accounted:
  assumes "\<forall>x \<in> set (docs db). accounted x"
  shows "\<forall>x \<in> set (docs (snd (clockOut rt db userId dailyReportIn now))). accounted x"
proof (cases "findOne (isActiveFor userId) (docs db)")
  case None
  with assms show ?thesis by (simp add: clockOut_docs)
next
  case (Some a)
  obtain i x where a: "a = (i, x)" by (cases a)
  have "accounted x" using Some a assms findOne_Some_mem by fastforce
  then have "accounted (clockOutUpdate rt reportText now x)" for reportText
    by (rule accounted_clockOutUpdate)
  with assms have upd: "\<forall>y \<in> set ((docs db)[i := clockOutUpdate rt reportText now x]). accounted y" for reportText
    by (rule all_update)
  show ?thesis
  proof (cases dailyReportIn)
    case None
    with assms Some a show ?thesis by (simp add: clockOut_docs)
  next
    case (Some reportText)
    show ?thesis
    proof (cases "reportMissing dailyReportIn")
      case True
      with assms \<open>findOne (isActiveFor userId) (docs db) = Some a\<close> a Some show ?thesis
        by (simp add: clockOut_docs)
    next
      case False
      with upd [of reportText] \<open>findOne (isActiveFor userId) (docs db) = Some a\<close> a Some show ?thesis
        by (simp add: clockOut_docs)
    qed
  qed
qed

lemma perform_accounted:
  assumes "\<forall>x \<in> set (docs db). accounted x"
  shows "\<forall>x \<in> set (docs (snd (perform rt db q))). accounted x"
proof (cases q)
  case (ReqClockIn u a b c)
  then show ?thesis using clockIn_accounted [OF assms, of rt u a b c]
    by (simp split: prod.splits)
next
  case (ReqGoAway u t)
  then show ?thesis using goAway_accounted [OF assms, of u t]
    by (simp split: prod.splits)
next
  case (ReqResume u t)
  then show ?thesis using resume_accounted [OF assms, of u t]
    by (simp split: prod.splits)
next
  case (ReqClockOut u rep t)
  then show ?thesis using clockOut_accounted [OF assms, of rt u rep t]
    by (simp split: prod.splits)
qed

lemma run_accounted:
  "\<forall>x \<in> set (docs db). accounted x \<Longrightarrow> run rt db qs = Some db' \<Longrightarrow>
     \<forall>x \<in> set (docs db'). accounted x"
proof (induction qs arbitrary: db)
  case Nil
  then show ?case by simp
next
  case (Cons q qs)
  obtain ok db1 where p: "perform rt db q = (ok, db1)" by (cases "perform rt db q")
  with Cons.prems(2) have ok: "ok" and r: "run rt db1 qs = Some db'"
    by (auto split: bool.splits if_splits)
  from perform_accounted [OF Cons.prems(1), of rt q] p
  have "\<forall>x \<in> set (docs db1). accounted x" by simp
  from Cons.IH [OF this r] show ?case .
qed

text \<open>
  C1. Take any sequence of clock-in, go-away, resume and clock-out requests that are all
  accepted, from a store whose records are fresh (\<open>activeSeconds = 0\<close>, no sessions; the
  empty store is one). Then every record of the store it leaves, so the record at each
  clock-out, has its \<open>activeSeconds\<close> equal to the sum of the durations of the closed
  entries of \<open>sessions\<close>, and every entry of \<open>sessions\<close> is closed with the duration
  \<open>(end - start) div 1000\<close>: end minus start in whole seconds.
\<close>

theorem activeSeconds_is_sum_of_sessions:
  assumes "\<forall>x \<in> set (docs db). activeSeconds x = 0 \<and> sessions x = []"
      and "run rt db qs = Some db'"
      and "r \<in> set (docs db')"
  shows "activeSeconds r =
           sum_list (map seg_duration (filter (\<lambda>s. seg_end s \<noteq> None) (sessions r)))
         \<and> (\<forall>s \<in> set (sessions r).
               \<exists>e. seg_end s = Some e \<and> seg_duration s = (e - seg_start s) div 1000)"
proof -
  from assms(1) have "\<forall>x \<in> set (docs db). accounted x"
    by (simp add: accounted_def)
  from run_accounted [OF this assms(2)] assms(3) have acc: "accounted r" by blast
  then have each: "\<forall>s \<in> set (sessions r).
                     \<exists>e. seg_end s = Some e \<and> seg_duration s = (e - seg_start s) div 1000"
    by (auto simp: accounted_def split: option.splits)
  then have "\<forall>s \<in> set (sessions r). seg_end s \<noteq> None"
    by auto
  then have "filter (\<lambda>s. seg_end s \<noteq> None) (sessions r) = sessions r"
    by simp
  with acc each show ?thesis by (simp add: accounted_def)
qed

theorem activeSeconds_is_sum_of_sessions_witness:
  "run utcRuntime emptyStore shortDay =
     Some \<lparr>docs = [shortDayRecord], reads = 3, writes = 2\<rparr>
   \<and> activeSeconds shortDayRecord = 5
   \<and> activeSeconds shortDayRecord =
       sum_list (map seg_duration
         (filter (\<lambda>s. seg_end s \<noteq> None) (sessions shortDayRecord)))
   \<and> (\<exists>s e. sessions shortDayRecord = [s] \<and> seg_end s = Some e \<and>
         seg_duration s = (e - seg_start s) div 1000)"
proof -
  have fresh: "\<forall>x \<in> set (docs emptyStore). activeSeconds x = 0 \<and> sessions x = []"
    by (simp add: emptyStore_def)
  have ran: "run utcRuntime emptyStore shortDay =
               Some \<lparr>docs = [shortDayRecord], reads = 3, writes = 2\<rparr>"
    by (simp add: shortDay_def shortDayRecord_def handler_defs utcRuntime_def
        emptyStore_def Let_def)
  have mem: "shortDayRecord \<in> set (docs \<lparr>docs = [shortDayRecord], reads = 3, writes = 2\<rparr>)"
    by simp
  have one: "sessions shortDayRecord =
               [\<lparr>seg_start = 1000, seg_end = Some 6500, seg_duration = 5\<rparr>]"
    and five: "activeSeconds shortDayRecord = 5"
    by (simp_all add: shortDayRecord_def)
  from activeSeconds_is_sum_of_sessions [OF fresh ran mem]
  have sum: "activeSeconds shortDayRecord =
               sum_list (map seg_duration
                 (filter (\<lambda>s. seg_end s \<noteq> None) (sessions shortDayRecord)))"
    and each: "\<forall>s \<in> set (sessions shortDayRecord).
                 \<exists>e. seg_end s = Some e \<and> seg_duration s = (e - seg_start s) div 1000"
    by blast+
  from each one have "\<exists>s e. sessions shortDayRecord = [s] \<and> seg_end s = Some e \<and>
         seg_duration s = (e - seg_start s) div 1000"
    by simp
  with ran five sum show ?thesis by blast
qed

section \<open>The working-day scenario\<close>

text \<open>
  C2. On the empty store (user 1 has no prior record), clock-in at 09:00, go-away at 11:00,
  resume at 11:30 and clock-out at 18:00 with the report "done" are all accepted and leave
  one record, with \<open>sessions = [{09:00, 11:00, 7200}, {11:30, 18:00, 23400}]\<close>,
  \<open>breaks = [{11:00, 11:30, 1800}]\<close>, \<open>activeSeconds = 30600\<close> and the status
  clocked-out.
\<close>

theorem workday_scenario:
  "run utcRuntime emptyStore workday =
     Some \<lparr>docs =
             [\<lparr>user = 1, date = 0, clockInAt = Some (hhmm 9 0),
               clockOutAt = Some (hhmm 18 0), status = ClockedOut, activeSeconds = 30600,
               lastActiveAt = None,
               sessions =
                 [\<lparr>seg_start = hhmm 9 0, seg_end = Some (hhmm 11 0), seg_duration = 7200\<rparr>,
                  \<lparr>seg_start = hhmm 11 30, seg_end = Some (hhmm 18 0), seg_duration = 23400\<rparr>],
               breaks =
                 [\<lparr>seg_start = hhmm 11 0, seg_end = Some (hhmm 11 30), seg_duration = 1800\<rparr>],
               dailyReport = ascii ''done''\<rparr>],
           reads = 5, writes = 4\<rparr>"
  by (simp add: example_defs handler_defs Let_def)

section \<open>Clock-in while active\<close>

text \<open>
  C5. When the user has a record with the status clocked-in or away, a clock-in is answered
  with the status 400 ("You are already clocked in. Please clock out first.") and the
  documents of the store are as they were: the handler saves nothing.
\<close>

theorem clockIn_twice_rejected:
  assumes "r \<in> set (docs db)" and "user r = userId"
      and "status r = ClockedIn \<or> status r = Away"
  shows "fst (clockIn rt db userId tRange tNew now) =
           Rejected 400 ''You are already clocked in. Please clock out first.''
         \<and> docs (snd (clockIn rt db userId tRange tNew now)) = docs db
         \<and> writes (snd (clockIn rt db userId tRange tNew now)) = writes db"
proof -
  have "isActiveFor userId r"
    using assms(2,3) by (simp add: isActiveFor_def isActiveStatus_def)
  with assms(1) obtain i x where "findOne (isActiveFor userId) (docs db) = Some (i, x)"
    by (rule findOne_found)
  then show ?thesis by (simp add: clockIn_active)
qed

theorem clockIn_twice_rejected_witness:
  "morningRecord \<in> set (docs morningStore) \<and> user morningRecord = 1
   \<and> status morningRecord = ClockedIn
   \<and> fst (clockIn utcRuntime morningStore 1 (hhmm 12 0) (hhmm 12 0) (hhmm 12 0)) =
       Rejected 400 ''You are already clocked in. Please clock out first.''
   \<and> docs (snd (clockIn utcRuntime morningStore 1 (hhmm 12 0) (hhmm 12 0) (hhmm 12 0))) =
       [morningRecord]
   \<and> writes (snd (clockIn utcRuntime morningStore 1 (hhmm 12 0) (hhmm 12 0) (hhmm 12 0))) = 0"
proof -
  have m: "morningRecord \<in> set (docs morningStore)" by (simp add: morningStore_def)
  have u: "user morningRecord = 1" by (simp add: morningRecord_def)
  have s: "status morningRecord = ClockedIn" by (simp add: morningRecord_def)
  from s have s': "status morningRecord = ClockedIn \<or> status morningRecord = Away" by simp
  have d: "docs morningStore = [morningRecord]" and w: "writes morningStore = 0"
    by (simp_all add: morningStore_def)
  from clockIn_twice_rejected [OF m u s', of utcRuntime "hhmm 12 0" "hhmm 12 0" "hhmm 12 0"]
    m u s d w
  show ?thesis by simp
qed

section \<open>Today's status\<close>

text \<open>
  C10. When the user has no active record and no record of the current day, \<open>getToday\<close>
  answers with success (not with a not-found error) and the synthetic snapshot: status
  absent, \<open>activeSeconds = 0\<close>, \<open>clockIn\<close>, \<open>clockOut\<close> and \<open>lastActiveAt\<close> null and an empty
  \<open>dailyReport\<close>. The store's documents are unchanged.
\<close>

theorem getToday_no_record:
  assumes "\<forall>r \<in> set (docs db). user r = userId \<longrightarrow>
             status r \<noteq> ClockedIn \<and> status r \<noteq> Away \<and> date r \<noteq> dayStart rt tRange"
  shows "fst (getToday rt db userId tRange now) =
           Success \<lparr>td_status = Absent, td_clockIn = None, td_clockOut = None,
                    td_activeSeconds = 0, td_totalBreakSeconds = None,
                    td_breaksCount = None, td_lastActiveAt = None, td_dailyReport = []\<rparr>
         \<and> docs (snd (getToday rt db userId tRange now)) = docs db
         \<and> writes (snd (getToday rt db userId tRange now)) = writes db"
proof -
  have a: "findOne (isActiveFor userId) (docs db) = None"
    using assms by (auto simp: findOne_None_iff isActiveFor_def isActiveStatus_def)
  have b: "findOne (isDayOf userId (dayStart rt tRange)) (docs db) = None"
    using assms by (auto simp: findOne_None_iff isDayOf_def)
  show ?thesis
    by (simp add: getToday_def getTodayRecord_def getActiveRecord_def findOneDoc_def
        getTodayRange_def a b)
qed

theorem getToday_no_record_witness:
  "docs closedStore = [closedRecord] \<and> user closedRecord = 1
   \<and> fst (getToday utcRuntime closedStore 2 (hhmm 12 0) (hhmm 12 0)) =
       Success \<lparr>td_status = Absent, td_clockIn = None, td_clockOut = None,
                td_activeSeconds = 0, td_totalBreakSeconds = None,
                td_breaksCount = None, td_lastActiveAt = None, td_dailyReport = []\<rparr>
   \<and> fst (getToday utcRuntime emptyStore 1 (hhmm 12 0) (hhmm 12 0)) =
       Success \<lparr>td_status = Absent, td_clockIn = None, td_clockOut = None,
                td_activeSeconds = 0, td_totalBreakSeconds = None,
                td_breaksCount = None, td_lastActiveAt = None, td_dailyReport = []\<rparr>"
proof -
  have h1: "\<forall>r \<in> set (docs closedStore). user r = 2 \<longrightarrow>
             status r \<noteq> ClockedIn \<and> status r \<noteq> Away
             \<and> date r \<noteq> dayStart utcRuntime (hhmm 12 0)"
    by (simp add: closedStore_def closedRecord_def)
  have h2: "\<forall>r \<in> set (docs emptyStore). user r = 1 \<longrightarrow>
             status r \<noteq> ClockedIn \<and> status r \<noteq> Away
             \<and> date r \<noteq> dayStart utcRuntime (hhmm 12 0)"
    by (simp add: emptyStore_def)
  have d: "docs closedStore = [closedRecord]" by (simp add: closedStore_def)
  have u: "user closedRecord = 1" by (simp add: closedRecord_def)
  from getToday_no_record [OF h1, of "hhmm 12 0"] getToday_no_record [OF h2, of "hhmm 12 0"] d u
  show ?thesis by simp
qed

text \<open>
  C4. When the active record of the user is clocked in with \<open>lastActiveAt = t\<close>, \<open>getToday\<close>
  reports \<open>activeSeconds\<close> as the persisted value plus the whole seconds from \<open>t\<close> to now
  (persisted + 600 when \<open>t\<close> is ten minutes ago), and it writes nothing: the documents and
  the number of writes of the store are unchanged.
\<close>

theorem getToday_live_seconds:
  assumes "fst (getActiveRecord db userId) = Some (i, r)"
      and "status r = ClockedIn" and "lastActiveAt r = Some t"
  shows "(\<exists>d. fst (getToday rt db userId tRange now) = Success d
            \<and> td_activeSeconds d = activeSeconds r + (now - t) div 1000)
         \<and> docs (snd (getToday rt db userId tRange now)) = docs db
         \<and> writes (snd (getToday rt db userId tRange now)) = writes db"
  using assms
  by (simp add: getToday_def getTodayRecord_def getActiveRecord_def findOneDoc_def)

theorem getToday_live_seconds_witness:
  "fst (getActiveRecord morningStore 1) = Some (0, morningRecord)
   \<and> status morningRecord = ClockedIn \<and> lastActiveAt morningRecord = Some (hhmm 10 0)
   \<and> activeSeconds morningRecord = 1200
   \<and> (\<exists>d. fst (getToday utcRuntime morningStore 1 (hhmm 10 10) (hhmm 10 10)) = Success d
         \<and> td_activeSeconds d = 1200 + 600)
   \<and> docs (snd (getToday utcRuntime morningStore 1 (hhmm 10 10) (hhmm 10 10))) =
       docs morningStore
   \<and> writes (snd (getToday utcRuntime morningStore 1 (hhmm 10 10) (hhmm 10 10))) =
       writes morningStore"
proof -
  have f: "fst (getActiveRecord morningStore 1) = Some (0, morningRecord)"
    by (simp add: getActiveRecord_def findOneDoc_def morningStore_def morningRecord_def
        isActiveFor_def isActiveStatus_def)
  have s: "status morningRecord = ClockedIn"
    and l: "lastActiveAt morningRecord = Some (hhmm 10 0)"
    and a: "activeSeconds morningRecord = 1200"
    by (simp_all add: morningRecord_def)
  have e: "(hhmm 10 10 - hhmm 10 0) div 1000 = 600" by (simp add: hhmm_def)
  from getToday_live_seconds [OF f s l, of utcRuntime "hhmm 10 10" "hhmm 10 10"] f s l a e
  show ?thesis by simp
qed

section \<open>Clock-out without a report\<close>

lemma clockOut_no_active:
  assumes "findOne (isActiveFor userId) (docs db) = None"
  shows "clockOut rt db userId dailyReportIn now =
           (Rejected 400 ''You are not clocked in. Please clock in first.'',
            db\<lparr>reads := Suc (reads db)\<rparr>)"
  using assms by (simp add: clockOut_def getActiveRecord_def findOneDoc_def)

lemma clockOut_no_report:
  assumes "findOne (isActiveFor userId) (docs db) = Some (i, x)"
      and "reportMissing dailyReportIn"
  shows "clockOut rt db userId dailyReportIn now =
           (Rejected 400 ''Daily report is required when clocking out'',
            db\<lparr>reads := Suc (reads db)\<rparr>)"
  using assms by (simp add: clockOut_def getActiveRecord_def findOneDoc_def)

text \<open>A report of white space only is missing too, whatever the white space: a
  no-break space, a line separator, a byte order mark, an ideographic space.\<close>

lemma reportMissing_whitespace:
  "reportMissing (Some [0x00A0])"
  "reportMissing (Some [0x0020, 0x2028, 0xFEFF, 0x3000, 0x0009, 0x000A])"
  "\<not> reportMissing (Some [0x0020, 0x0061, 0x00A0])"
  by (simp_all add: reportMissing_def trim_def isWhitespace_def)

text \<open>
  C6, as stated: a clock-out whose report is missing or empty is rejected before any
  access to the store. It is not: \<open>clockOut\<close> looks the active record up first. For user 1,
  clocked in, a clock-out without a report is rejected for the report after one read of
  the store; on the empty store the same request is rejected for the state ("You are not
  clocked in"), which only the store can tell.
\<close>

theorem clockOut_reads_before_validating:
  "reads morningStore = 0
   \<and> fst (clockOut utcRuntime morningStore 1 None (hhmm 12 0)) =
       Rejected 400 ''Daily report is required when clocking out''
   \<and> reads (snd (clockOut utcRuntime morningStore 1 None (hhmm 12 0))) = 1
   \<and> fst (clockOut utcRuntime emptyStore 1 None (hhmm 12 0)) =
       Rejected 400 ''You are not clocked in. Please clock in first.''"
  by (simp add: example_defs clockOut_def getActiveRecord_def findOneDoc_def
      isActiveFor_def isActiveStatus_def reportMissing_def)

text \<open>
  C6, amended: a clock-out whose report is missing or empty is rejected with the status
  400 and writes nothing (the documents and the number of writes are unchanged); the store
  is read once before, for the active record, and without an active record the rejection
  is "You are not clocked in. Please clock in first." instead of "Daily report is required
  when clocking out".
\<close>

theorem clockOut_missing_report:
  assumes "dailyReportIn = None \<or> dailyReportIn = Some []"
  shows "fst (clockOut rt db userId dailyReportIn now) =
           Rejected 400
             (if fst (getActiveRecord db userId) = None
              then ''You are not clocked in. Please clock in first.''
              else ''Daily report is required when clocking out'')
         \<and> docs (snd (clockOut rt db userId dailyReportIn now)) = docs db
         \<and> writes (snd (clockOut rt db userId dailyReportIn now)) = writes db
         \<and> reads (snd (clockOut rt db userId dailyReportIn now)) = Suc (reads db)"
proof (cases "findOne (isActiveFor userId) (docs db)")
  case None
  then show ?thesis
    by (simp add: clockOut_no_active getActiveRecord_def findOneDoc_def)
next
  case (Some a)
  obtain i x where a: "a = (i, x)" by (cases a)
  from assms have "reportMissing dailyReportIn"
    by (auto simp: reportMissing_def)
  with Some a show ?thesis
    by (simp add: clockOut_no_report getActiveRecord_def findOneDoc_def)
qed

theorem clockOut_missing_report_witness:
  "fst (getActiveRecord morningStore 1) = Some (0, morningRecord)
   \<and> fst (clockOut utcRuntime morningStore 1 (Some []) (hhmm 12 0)) =
       Rejected 400 ''Daily report is required when clocking out''
   \<and> docs (snd (clockOut utcRuntime morningStore 1 (Some []) (hhmm 12 0))) =
       [morningRecord]
   \<and> writes (snd (clockOut utcRuntime morningStore 1 (Some []) (hhmm 12 0))) = 0
   \<and> reads (snd (clockOut utcRuntime morningStore 1 (Some []) (hhmm 12 0))) = 1"
proof -
  have m: "Some [] = None \<or> Some [] = Some ([] :: jsString)"
    by simp
  have f: "fst (getActiveRecord morningStore 1) = Some (0, morningRecord)"
    by (simp add: getActiveRecord_def findOneDoc_def morningStore_def morningRecord_def
        isActiveFor_def isActiveStatus_def)
  have d: "docs morningStore = [morningRecord]" "writes morningStore = 0"
    "reads morningStore = 0"
    by (simp_all add: morningStore_def)
  from clockOut_missing_report [OF m, of utcRuntime morningStore 1 "hhmm 12 0"] f d
  show ?thesis by simp
qed

section \<open>Administrative override of a day that has a record\<close>

lemma adminOverride_existing:
  assumes "findOne (isDayOf userId start) (docs db) = Some (i, r)"
  shows "adminOverride db userId start statusIn =
           (Success (''Attendance marked as '' @ statusIn @ ''.''),
            db\<lparr>reads := Suc (reads db),
               docs := (docs db)[i := overrideExisting start statusIn r],
               writes := Suc (writes db)\<rparr>)"
  using assms by (simp add: adminOverride_def findOneDoc_def save_def)

text \<open>
  C8, as stated: on a day with a record, the override to present gives synthetic clock-in
  and clock-out timestamps. The clock-in is not synthetic when the record has one: the
  closed day of user 1 (clock-in 09:00) overridden to present keeps the clock-in 09:00,
  which is not the start of the day, and gets the clock-out 08:00 (day start + 28800 s).
\<close>

theorem adminOverride_present_keeps_clockIn:
  "docs closedStore = [closedRecord] \<and> date closedRecord = 0
   \<and> clockInAt closedRecord = Some (hhmm 9 0)
   \<and> map clockInAt (docs (snd (adminOverride closedStore 1 0 ''present''))) =
       [Some (hhmm 9 0)]
   \<and> hhmm 9 0 \<noteq> 0
   \<and> map clockOutAt (docs (snd (adminOverride closedStore 1 0 ''present''))) =
       [Some (hhmm 8 0)]"
  by (simp add: example_defs adminOverride_def findOneDoc_def save_def isDayOf_def
      overrideExisting_def Let_def)

text \<open>
  C8, amended: on a day with a record, the override to absent sets \<open>activeSeconds\<close> to 0
  and clears \<open>clockIn\<close> and \<open>clockOut\<close> (and \<open>lastActiveAt\<close>, with the status absent); the
  override to present makes the record clocked-out with \<open>activeSeconds = 28800\<close> and
  \<open>clockOut\<close> = day start + 28800 seconds, and sets \<open>clockIn\<close> to the day start only when
  the record has no \<open>clockIn\<close>: a \<open>clockIn\<close> that is there is kept.
\<close>

theorem adminOverride_existing_record:
  assumes "findOne (isDayOf userId start) (docs db) = Some (i, r)"
  shows "docs (snd (adminOverride db userId start ''absent'')) =
           (docs db)[i := r\<lparr>status := Absent, activeSeconds := 0, lastActiveAt := None,
                            clockInAt := None, clockOutAt := None,
                            dailyReport := ascii ''Admin marked absent.''\<rparr>]
         \<and> docs (snd (adminOverride db userId start ''present'')) =
           (docs db)[i := r\<lparr>status := ClockedOut, activeSeconds := 28800,
                            clockInAt := (case clockInAt r of None \<Rightarrow> Some start
                                          | Some c \<Rightarrow> Some c),
                            clockOutAt := Some (start + 28800 * 1000),
                            dailyReport := ascii ''Admin overridden.''\<rparr>]"
  by (cases "clockInAt r")
     (simp_all add: adminOverride_existing [OF assms] overrideExisting_def Let_def)

theorem adminOverride_existing_record_witness:
  "findOne (isDayOf 1 0) (docs closedStore) = Some (0, closedRecord)
   \<and> docs (snd (adminOverride closedStore 1 0 ''absent'')) =
       [closedRecord\<lparr>status := Absent, activeSeconds := 0, lastActiveAt := None,
                     clockInAt := None, clockOutAt := None,
                     dailyReport := ascii ''Admin marked absent.''\<rparr>]
   \<and> docs (snd (adminOverride closedStore 1 0 ''present'')) =
       [closedRecord\<lparr>status := ClockedOut, activeSeconds := 28800,
                     clockInAt := Some (hhmm 9 0), clockOutAt := Some (hhmm 8 0),
                     dailyReport := ascii ''Admin overridden.''\<rparr>]"
proof -
  have f: "findOne (isDayOf 1 0) (docs closedStore) = Some (0, closedRecord)"
    by (simp add: closedStore_def closedRecord_def isDayOf_def)
  have d: "docs closedStore = [closedRecord]" by (simp add: closedStore_def)
  have c: "clockInAt closedRecord = Some (hhmm 9 0)" by (simp add: closedRecord_def)
  have e: "hhmm 8 0 = 0 + 28800 * 1000" by (simp add: hhmm_def)
  from adminOverride_existing_record [OF f] f d c e
  show ?thesis by simp
qed

lemma lastActiveAt_iff_clockedIn:
  "(lastActiveAt (clockInUpdate now r) \<noteq> None) = (status (clockInUpdate now r) = ClockedIn)"
  "(lastActiveAt (goAwayUpdate now r) \<noteq> None) = (status (goAwayUpdate now r) = ClockedIn)"
  "(lastActiveAt (resumeUpdate now r) \<noteq> None) = (status (resumeUpdate now r) = ClockedIn)"
  "(lastActiveAt (clockOutUpdate rt reportText now r) \<noteq> None) =
     (status (clockOutUpdate rt reportText now r) = ClockedIn)"
  by (simp_all add: clockInUpdate_def goAwayUpdate_def resumeUpdate_def clockOutUpdate_def
      closeSegment_def Let_def split: option.splits)

text \<open>
  C9: after every operation, \<open>lastActiveAt\<close> is present exactly when the status is
  clocked-in. The override to absent clears \<open>lastActiveAt\<close>; the override to present does
  not: user 1, clocked in since 10:00, overridden to present, is clocked-out with
  \<open>lastActiveAt\<close> still 10:00.
\<close>

theorem adminOverride_present_leaves_lastActiveAt:
  "docs morningStore = [morningRecord]
   \<and> status morningRecord = ClockedIn \<and> lastActiveAt morningRecord = Some (hhmm 10 0)
   \<and> map status (docs (snd (adminOverride morningStore 1 0 ''present''))) = [ClockedOut]
   \<and> map lastActiveAt (docs (snd (adminOverride morningStore 1 0 ''present''))) =
       [Some (hhmm 10 0)]
   \<and> map lastActiveAt (docs (snd (adminOverride morningStore 1 0 ''absent''))) = [None]"
  by (simp add: example_defs adminOverride_def findOneDoc_def save_def isDayOf_def
      overrideExisting_def Let_def)

section \<open>History\<close>

lemma foldl_add_sum_list:
  "foldl (\<lambda>sum r. sum + f r) a xs = a + sum_list (map f xs)" for a :: int
  by (induction xs arbitrary: a) simp_all

lemma mathRound_near: "\<bar>of_int (mathRound x) - x\<bar> \<le> 1 / 2"
proof -
  have "of_int \<lfloor>x + 1 / 2\<rfloor> \<le> x + 1 / 2"
    and "x + 1 / 2 < of_int \<lfloor>x + 1 / 2\<rfloor> + 1"
    using floor_correct [of "x + 1 / 2"] by simp_all
  then show ?thesis unfolding mathRound_def by linarith
qed

lemma totalWorkingHours_near:
  "\<bar>totalWorkingHoursOf rows - of_int (sum_list (map hr_activeSeconds rows)) / 3600\<bar> \<le> 1 / 20"
proof -
  define x :: real where "x = of_int (totalActiveSecondsOf rows) / 3600 * 10"
  have t: "totalActiveSecondsOf rows = sum_list (map hr_activeSeconds rows)"
    by (simp add: totalActiveSecondsOf_def foldl_add_sum_list)
  have e: "totalWorkingHoursOf rows - of_int (sum_list (map hr_activeSeconds rows)) / 3600 =
          (of_int (mathRound x) - x) / 10"
    by (simp add: totalWorkingHoursOf_def x_def t diff_divide_distrib)
  have "\<bar>(of_int (mathRound x) - x) / 10\<bar> = \<bar>of_int (mathRound x) - x\<bar> / 10"
    by simp
  also have "\<dots> \<le> (1 / 2) / 10"
    using mathRound_near [of x] by (intro divide_right_mono) simp_all
  finally have "\<bar>(of_int (mathRound x) - x) / 10\<bar> \<le> 1 / 20" by simp
  then show ?thesis by (simp only: e)
qed

lemma daysPresent_not_absent:
  "daysPresentOf rows = length (filter (\<lambda>r. hr_status r \<noteq> Absent) rows)"
proof -
  have "(s \<in> set [ClockedIn, ClockedOut, Away]) = (s \<noteq> Absent)" for s
    by (cases s) simp_all
  then show ?thesis by (simp add: daysPresentOf_def)
qed

lemma history_example:
  "\<exists>d. fst (getHistory historyStore 1 1 1970 0 (31 * dayMs - 1)) = Success d
      \<and> map hr_activeSeconds (hd_records d) = [28800, 0, 3600]
      \<and> map hr_status (hd_records d) = [ClockedOut, Absent, ClockedOut]
      \<and> hd_daysPresent d = 2 \<and> hd_totalWorkingHours d = 9"
  by (simp add: getHistory_def findRange_def historyStore_def closedRecord_def dayMs_def
      hhmm_def selectRow_def daysPresentOf_def totalWorkingHoursOf_def
      totalActiveSecondsOf_def mathRound_def)

text \<open>
  C7. For every range, \<open>getHistory\<close> counts in \<open>daysPresent\<close> the records of the range whose
  status is not absent, and \<open>totalWorkingHours\<close> is a multiple of 0.1 at most 0.05 away
  from the sum of the records' \<open>activeSeconds\<close> divided by 3600: that quotient rounded to the
  nearest 0.1. The records with 28800 seconds, absent, and 3600 seconds give
  \<open>daysPresent = 2\<close> and \<open>totalWorkingHours = 9\<close>.
\<close>

theorem history_stats:
  "(\<exists>d. fst (getHistory db userId month year rangeStart rangeEnd) = Success d
      \<and> hd_records d = fst (findRange userId rangeStart rangeEnd db)
      \<and> hd_daysPresent d = length (filter (\<lambda>r. hr_status r \<noteq> Absent) (hd_records d))
      \<and> (\<exists>k::int. hd_totalWorkingHours d = of_int k / 10)
      \<and> \<bar>hd_totalWorkingHours d
           - of_int (sum_list (map hr_activeSeconds (hd_records d))) / 3600\<bar> \<le> 1 / 20)
   \<and> (\<exists>d. fst (getHistory historyStore 1 1 1970 0 (31 * dayMs - 1)) = Success d
      \<and> map hr_activeSeconds (hd_records d) = [28800, 0, 3600]
      \<and> map hr_status (hd_records d) = [ClockedOut, Absent, ClockedOut]
      \<and> hd_daysPresent d = 2 \<and> hd_totalWorkingHours d = 9)"
proof -
  obtain rows db1 where f: "findRange userId rangeStart rangeEnd db = (rows, db1)"
    by (cases "findRange userId rangeStart rangeEnd db")
  have k: "\<exists>k::int. totalWorkingHoursOf rows = of_int k / 10"
    unfolding totalWorkingHoursOf_def by blast
  from f k totalWorkingHours_near [of rows]
  have "\<exists>d. fst (getHistory db userId month year rangeStart rangeEnd) = Success d
      \<and> hd_records d = fst (findRange userId rangeStart rangeEnd db)
      \<and> hd_daysPresent d = length (filter (\<lambda>r. hr_status r \<noteq> Absent) (hd_records d))
      \<and> (\<exists>k::int. hd_totalWorkingHours d = of_int k / 10)
      \<and> \<bar>hd_totalWorkingHours d
           - of_int (sum_list (map hr_activeSeconds (hd_records d))) / 3600\<bar> \<le> 1 / 20"
    by (simp add: getHistory_def daysPresent_not_absent del: abs_le_iff)
  with history_example show ?thesis by blast
qed

section \<open>The active record across days\<close>

lemma findOne_map_position:
  assumes "\<And>x. P (g x) = P x"
  shows "map_option fst (findOne P (map g xs)) = map_option fst (findOne P xs)"
proof (induction xs)
  case Nil
  show ?case by simp
next
  case (Cons a xs)
  show ?case
  proof (cases "P a")
    case True
    then show ?thesis by (simp add: assms)
  next
    case False
    with Cons.IH show ?thesis
      by (cases "findOne P (map g xs)"; cases "findOne P xs") (auto simp: assms)
  qed
qed

lemma getActiveRecord_dates:
  "map_option fst (fst (getActiveRecord (db\<lparr>docs := map (date_update f) (docs db)\<rparr>) userId)) =
   map_option fst (fst (getActiveRecord db userId))"
proof -
  have "isActiveFor userId (date_update f x) = isActiveFor userId x" for x
    by (simp add: isActiveFor_def)
  then show ?thesis
    by (simp add: getActiveRecord_def findOneDoc_def findOne_map_position)
qed

lemma no_active_rejected:
  assumes "fst (getActiveRecord db userId) = None"
  shows "fst (goAway db userId now) = Rejected 400 ''You must be clocked in to go away''"
    and "fst (resume db userId now) = Rejected 400 ''You are not on a break''"
    and "fst (clockOut rt db userId dailyReportIn now) =
           Rejected 400 ''You are not clocked in. Please clock in first.''"
  using assms
  by (simp_all add: goAway_def resume_def clockOut_def getActiveRecord_def findOneDoc_def)

lemma getTodayRecord_spec:
  "fst (getTodayRecord rt db userId tRange) =
     specActiveLookup (docs db) userId (dayStart rt tRange)"
  by (simp add: getTodayRecord_def getActiveRecord_def findOneDoc_def specActiveLookup_def
      getTodayRange_def split: option.splits)

lemma clockOut_accepted:
  assumes "findOne (isActiveFor userId) (docs db) = Some (i, x)"
      and "\<not> reportMissing (Some reportText)"
  shows "isSuccess (fst (clockOut rt db userId (Some reportText) now))"
    and "docs (snd (clockOut rt db userId (Some reportText) now)) =
           (docs db)[i := clockOutUpdate rt reportText now x]"
  using assms
  by (simp_all add: clockOut_def getActiveRecord_def findOneDoc_def save_def Let_def)

lemma clockOutUpdate_fields:
  "user (clockOutUpdate rt reportText now x) = user x"
  "date (clockOutUpdate rt reportText now x) = date x"
  "status (clockOutUpdate rt reportText now x) = ClockedOut"
  by (simp_all add: clockOutUpdate_def closeSegment_def Let_def split: option.splits)

lemma clockIn_then_clockOut:
  assumes na: "findOne (isActiveFor userId) (docs db) = None"
      and nd: "findOne (isDayOf userId (dayStart rt tRange)) (docs db) = None"
      and rep: "\<not> reportMissing (Some reportText)"
  shows "isSuccess (fst (clockIn rt db userId tRange tNew tIn))"
    and "isSuccess (fst (clockOut rt (snd (clockIn rt db userId tRange tNew tIn)) userId
           (Some reportText) tOut))"
    and "\<exists>r. docs (snd (clockOut rt (snd (clockIn rt db userId tRange tNew tIn)) userId
                 (Some reportText) tOut)) = docs db @ [r]
            \<and> user r = userId \<and> date r = dayStart rt tRange \<and> status r = ClockedOut"
proof -
  let ?r1 = "clockInUpdate tIn (newAttendance userId (dayStart rt tRange) tNew)"
  let ?db1 = "snd (clockIn rt db userId tRange tNew tIn)"
  show "isSuccess (fst (clockIn rt db userId tRange tNew tIn))"
    by (rule clockIn_new(1) [OF na nd])
  have d1: "docs ?db1 = docs db @ [?r1]"
    by (rule clockIn_new(2) [OF na nd])
  have act: "isActiveFor userId ?r1"
    by (simp add: isActiveFor_def isActiveStatus_def clockInUpdate_def newAttendance_def)
  have found: "findOne (isActiveFor userId) (docs ?db1) = Some (length (docs db), ?r1)"
    using findOne_append_new [OF na, of ?r1] act by (simp add: d1)
  show "isSuccess (fst (clockOut rt ?db1 userId (Some reportText) tOut))"
    by (rule clockOut_accepted(1) [OF found rep])
  have d2: "docs (snd (clockOut rt ?db1 userId (Some reportText) tOut)) =
              docs db @ [clockOutUpdate rt reportText tOut ?r1]"
    using clockOut_accepted(2) [OF found rep, of rt tOut] by (simp add: d1)
  have "user ?r1 = userId" "date ?r1 = dayStart rt tRange"
    by (simp_all add: clockInUpdate_def newAttendance_def)
  with d2 show "\<exists>r. docs (snd (clockOut rt ?db1 userId (Some reportText) tOut)) = docs db @ [r]
            \<and> user r = userId \<and> date r = dayStart rt tRange \<and> status r = ClockedOut"
    by (simp add: clockOutUpdate_fields)
qed

lemma map_update_found:
  assumes "findOne P xs = Some (i, x)" and "f y = f x"
  shows "map f (xs[i := y]) = map f xs"
proof -
  from findOne_SomeD [OF assms(1)] have i: "i < length xs" and x: "xs ! i = x" by simp_all
  have "map f (xs[i := y]) = (map f xs)[i := f y]" by (rule map_update)
  also have "\<dots> = (map f xs)[i := (map f xs) ! i]" using i x assms(2) by simp
  also have "\<dots> = map f xs" by (rule list_update_id)
  finally show ?thesis .
qed

lemma dayKey_updates:
  "dayKey (goAwayUpdate now x) = dayKey x"
  "dayKey (resumeUpdate now x) = dayKey x"
  "dayKey (clockOutUpdate rt reportText now x) = dayKey x"
  by (simp_all add: dayKey_def goAwayUpdate_def resumeUpdate_def clockOutUpdate_def
      closeSegment_def Let_def split: option.splits)

lemma goAway_keys: "map dayKey (docs (snd (goAway db userId now))) = map dayKey (docs db)"
proof (cases "findOne (isActiveFor userId) (docs db)")
  case None
  then show ?thesis by (simp add: goAway_docs)
next
  case (Some a)
  obtain i x where a: "a = (i, x)" by (cases a)
  from Some a map_update_found [of "isActiveFor userId" "docs db" i x dayKey "goAwayUpdate now x"]
  show ?thesis by (simp add: goAway_docs dayKey_updates)
qed

lemma resume_keys: "map dayKey (docs (snd (resume db userId now))) = map dayKey (docs db)"
proof (cases "findOne (isActiveFor userId) (docs db)")
  case None
  then show ?thesis by (simp add: resume_docs)
next
  case (Some a)
  obtain i x where a: "a = (i, x)" by (cases a)
  from Some a map_update_found [of "isActiveFor userId" "docs db" i x dayKey "resumeUpdate now x"]
  show ?thesis by (simp add: resume_docs dayKey_updates)
qed

lemma clockOut_keys:
  "map dayKey (docs (snd (clockOut rt db userId dailyReportIn now))) = map dayKey (docs db)"
proof (cases "findOne (isActiveFor userId) (docs db)")
  case None
  then show ?thesis by (simp add: clockOut_docs)
next
  case (Some a)
  obtain i x where a: "a = (i, x)" by (cases a)
  show ?thesis
  proof (cases dailyReportIn)
    case None
    with Some a show ?thesis by (simp add: clockOut_docs)
  next
    case R: (Some reportText)
    from Some a R
      map_update_found [of "isActiveFor userId" "docs db" i x dayKey
        "clockOutUpdate rt reportText now x"]
    show ?thesis by (simp add: clockOut_docs dayKey_updates)
  qed
qed

text \<open>
  C3, as stated: the lookup of go-away, resume, clock-out and today searches an active
  record first and then falls back to the record of the current day. The lookup of
  go-away, resume and clock-out (\<open>getActiveRecord\<close>) has no such fallback: for user 1 with
  the day closed, the lookup of the specification finds the record of the day,
  \<open>getActiveRecord\<close> finds nothing, and a clock-out is rejected and changes nothing.
\<close>

theorem clockOut_lookup_has_no_fallback:
  "fst (getActiveRecord closedStore 1) = None
   \<and> specActiveLookup (docs closedStore) 1 (dayStart utcRuntime (hhmm 18 0)) =
       Some (0, closedRecord)
   \<and> fst (clockOut utcRuntime closedStore 1 (Some (ascii ''again'')) (hhmm 18 0)) =
       Rejected 400 ''You are not clocked in. Please clock in first.''
   \<and> docs (snd (clockOut utcRuntime closedStore 1 (Some (ascii ''again'')) (hhmm 18 0))) =
       docs closedStore"
  by (simp add: example_defs specActiveLookup_def clockOut_def getActiveRecord_def
      findOneDoc_def isActiveFor_def isActiveStatus_def isDayOf_def)

text \<open>
  C3, amended: go-away, resume and clock-out look the record up by user and status
  (clocked-in or away) only, whatever its date (changing the dates of the documents does
  not change the position found), and are rejected when there is none, without a lookup by
  day; \<open>getToday\<close> does the same search first and falls back to the record of the current
  day. Go-away, resume and clock-out create no record and change no record's user or
  date, at whatever time they come. Consequently, for a user without an active record and
  without a record of the day, a clock-in followed by a clock-out at any later time, also
  after midnight, is accepted and leaves one single new record, clocked-out, whose date is
  the day of the clock-in.
\<close>

theorem active_lookup_cross_day:
  "map_option fst
     (fst (getActiveRecord (db\<lparr>docs := map (date_update f) (docs db)\<rparr>) userId)) =
   map_option fst (fst (getActiveRecord db userId))
   \<and> (fst (getActiveRecord db userId) = None \<longrightarrow>
        fst (goAway db userId now) = Rejected 400 ''You must be clocked in to go away''
        \<and> fst (resume db userId now) = Rejected 400 ''You are not on a break''
        \<and> fst (clockOut rt db userId dailyReportIn now) =
            Rejected 400 ''You are not clocked in. Please clock in first.'')
   \<and> fst (getTodayRecord rt db userId tRange) =
       specActiveLookup (docs db) userId (dayStart rt tRange)
   \<and> map dayKey (docs (snd (goAway db userId now))) = map dayKey (docs db)
   \<and> map dayKey (docs (snd (resume db userId now))) = map dayKey (docs db)
   \<and> map dayKey (docs (snd (clockOut rt db userId dailyReportIn now))) = map dayKey (docs db)
   \<and> (fst (getActiveRecord db userId) = None
        \<and> findOne (isDayOf userId (dayStart rt tRange)) (docs db) = None
        \<and> \<not> reportMissing (Some reportText) \<longrightarrow>
        isSuccess (fst (clockIn rt db userId tRange tNew tIn))
        \<and> isSuccess (fst (clockOut rt (snd (clockIn rt db userId tRange tNew tIn)) userId
             (Some reportText) tOut))
        \<and> (\<exists>r. docs (snd (clockOut rt (snd (clockIn rt db userId tRange tNew tIn)) userId
                   (Some reportText) tOut)) = docs db @ [r]
              \<and> user r = userId \<and> date r = dayStart rt tRange \<and> status r = ClockedOut))"
proof (intro conjI impI)
  show "map_option fst
     (fst (getActiveRecord (db\<lparr>docs := map (date_update f) (docs db)\<rparr>) userId)) =
   map_option fst (fst (getActiveRecord db userId))"
    by (rule getActiveRecord_dates)
next
  assume "fst (getActiveRecord db userId) = None"
  then show "fst (goAway db userId now) = Rejected 400 ''You must be clocked in to go away''"
    and "fst (resume db userId now) = Rejected 400 ''You are not on a break''"
    and "fst (clockOut rt db userId dailyReportIn now) =
            Rejected 400 ''You are not clocked in. Please clock in first.''"
    by (rule no_active_rejected)+
next
  show "fst (getTodayRecord rt db userId tRange) =
       specActiveLookup (docs db) userId (dayStart rt tRange)"
    by (rule getTodayRecord_spec)
next
  show "map dayKey (docs (snd (goAway db userId now))) = map dayKey (docs db)"
    by (rule goAway_keys)
next
  show "map dayKey (docs (snd (resume db userId now))) = map dayKey (docs db)"
    by (rule resume_keys)
next
  show "map dayKey (docs (snd (clockOut rt db userId dailyReportIn now))) =
          map dayKey (docs db)"
    by (rule clockOut_keys)
next
  assume h: "fst (getActiveRecord db userId) = None
        \<and> findOne (isDayOf userId (dayStart rt tRange)) (docs db) = None
        \<and> \<not> reportMissing (Some reportText)"
  then have na: "findOne (isActiveFor userId) (docs db) = None"
    by (simp add: getActiveRecord_def findOneDoc_def)
  from h have nd: "findOne (isDayOf userId (dayStart rt tRange)) (docs db) = None"
    and rep: "\<not> reportMissing (Some reportText)"
    by simp_all
  show "isSuccess (fst (clockIn rt db userId tRange tNew tIn))"
    by (rule clockIn_then_clockOut(1) [OF na nd rep])
  show "isSuccess (fst (clockOut rt (snd (clockIn rt db userId tRange tNew tIn)) userId
             (Some reportText) tOut))"
    by (rule clockIn_then_clockOut(2) [OF na nd rep])
  show "\<exists>r. docs (snd (clockOut rt (snd (clockIn rt db userId tRange tNew tIn)) userId
                   (Some reportText) tOut)) = docs db @ [r]
              \<and> user r = userId \<and> date r = dayStart rt tRange \<and> status r = ClockedOut"
    by (rule clockIn_then_clockOut(3) [OF na nd rep])
qed

theorem active_lookup_cross_day_witness:
  "fst (getActiveRecord emptyStore 1) = None
   \<and> findOne (isDayOf 1 (dayStart utcRuntime (hhmm 23 50))) (docs emptyStore) = None
   \<and> \<not> reportMissing (Some (ascii ''done''))
   \<and> dayStart utcRuntime (hhmm 23 50) = 0 \<and> dayStart utcRuntime (dayMs + hhmm 0 20) = dayMs
   \<and> fst (clockOut utcRuntime emptyStore 1 (Some (ascii ''done'')) (hhmm 23 50)) =
       Rejected 400 ''You are not clocked in. Please clock in first.''
   \<and> isSuccess (fst (clockIn utcRuntime emptyStore 1 (hhmm 23 50) (hhmm 23 50) (hhmm 23 50)))
   \<and> isSuccess (fst (clockOut utcRuntime
         (snd (clockIn utcRuntime emptyStore 1 (hhmm 23 50) (hhmm 23 50) (hhmm 23 50))) 1
         (Some (ascii ''done'')) (dayMs + hhmm 0 20)))
   \<and> (\<exists>r. docs (snd (clockOut utcRuntime
               (snd (clockIn utcRuntime emptyStore 1 (hhmm 23 50) (hhmm 23 50) (hhmm 23 50)))
               1 (Some (ascii ''done'')) (dayMs + hhmm 0 20))) = [r]
          \<and> user r = 1 \<and> date r = 0 \<and> status r = ClockedOut)"
proof -
  have a: "fst (getActiveRecord emptyStore 1) = None"
    by (simp add: getActiveRecord_def findOneDoc_def emptyStore_def)
  have b: "findOne (isDayOf 1 (dayStart utcRuntime (hhmm 23 50))) (docs emptyStore) = None"
    by (simp add: emptyStore_def)
  have c: "\<not> reportMissing (Some (ascii ''done''))"
    by (simp add: reportMissing_def trim_def isWhitespace_def ascii_def)
  have d: "dayStart utcRuntime (hhmm 23 50) = 0"
    "dayStart utcRuntime (dayMs + hhmm 0 20) = dayMs"
    by (simp_all add: utcRuntime_def hhmm_def dayMs_def)
  have e: "docs emptyStore = []" by (simp add: emptyStore_def)
  from active_lookup_cross_day [where db = emptyStore and f = id and userId = 1
      and now = "hhmm 23 50" and rt = utcRuntime and dailyReportIn = "Some (ascii ''done'')"
      and tRange = "hhmm 23 50" and reportText = "ascii ''done''" and tNew = "hhmm 23 50"
      and tIn = "hhmm 23 50" and tOut = "dayMs + hhmm 0 20"] a b c d e
  show ?thesis by simp
qed

end
